theory Spec2Isabelle
  imports Complex_Main
begin

section \<open>Numeric model\<close>

text \<open>
  The notebook \<^verbatim>\<open>3-3D-Quadrotor.ipynb\<close> computes with numpy arrays of 64-bit floats.
  The embedding idealises floats as \<^typ>\<open>real\<close>: every formula is read with exact
  arithmetic, so rounding, overflow to infinity and NaN are outside the model.
  Arrays of a fixed shape become tuples: a \<^verbatim>\<open>(3,)\<close> array is a triple, a
  \<^verbatim>\<open>(4,)\<close> array a quadruple, and a matrix is the tuple of its rows.
  The flat state vector handed to the ODE solver is a \<^typ>\<open>real list\<close>.
\<close>

type_synonym vec3 = "real \<times> real \<times> real"
type_synonym vec4 = "real \<times> real \<times> real \<times> real"
type_synonym mat3 = "vec3 \<times> vec3 \<times> vec3"
type_synonym mat4 = "vec4 \<times> vec4 \<times> vec4 \<times> vec4"
type_synonym mat34 = "vec4 \<times> vec4 \<times> vec4"
type_synonym mat43 = "vec3 \<times> vec3 \<times> vec3 \<times> vec3"

datatype error = LinAlgError | ZeroDivisionError | ValueError | IndexError

text \<open>Elementwise numpy arithmetic on \<^verbatim>\<open>(3,)\<close> and \<^verbatim>\<open>(4,)\<close> arrays.\<close>

fun vadd3 :: "vec3 \<Rightarrow> vec3 \<Rightarrow> vec3" where
  "vadd3 (a0, a1, a2) (b0, b1, b2) = (a0 + b0, a1 + b1, a2 + b2)"

fun vsub3 :: "vec3 \<Rightarrow> vec3 \<Rightarrow> vec3" where
  "vsub3 (a0, a1, a2) (b0, b1, b2) = (a0 - b0, a1 - b1, a2 - b2)"

fun vdiv3 :: "vec3 \<Rightarrow> real \<Rightarrow> vec3" where
  "vdiv3 (a0, a1, a2) c = (a0 / c, a1 / c, a2 / c)"

fun vdiv4 :: "vec4 \<Rightarrow> real \<Rightarrow> vec4" where
  "vdiv4 (a0, a1, a2, a3) c = (a0 / c, a1 / c, a2 / c, a3 / c)"

fun vmul4 :: "vec4 \<Rightarrow> vec4 \<Rightarrow> vec4" where
  "vmul4 (a0, a1, a2, a3) (b0, b1, b2, b3) = (a0 * b0, a1 * b1, a2 * b2, a3 * b3)"

fun vscale4 :: "vec4 \<Rightarrow> real \<Rightarrow> vec4" where
  "vscale4 (a0, a1, a2, a3) c = (a0 * c, a1 * c, a2 * c, a3 * c)"


fun vneg4 :: "vec4 \<Rightarrow> vec4" where
  "vneg4 (a0, a1, a2, a3) = (- a0, - a1, - a2, - a3)"

text \<open>The numpy operator \<^verbatim>\<open>@\<close> (matrix times vector) and \<^verbatim>\<open>.T\<close> at the shapes used.\<close>

fun dot3 :: "vec3 \<Rightarrow> vec3 \<Rightarrow> real" where
  "dot3 (a0, a1, a2) (b0, b1, b2) = a0 * b0 + a1 * b1 + a2 * b2"

fun dot4 :: "vec4 \<Rightarrow> vec4 \<Rightarrow> real" where
  "dot4 (a0, a1, a2, a3) (b0, b1, b2, b3) = a0 * b0 + a1 * b1 + a2 * b2 + a3 * b3"

fun matvec3 :: "mat3 \<Rightarrow> vec3 \<Rightarrow> vec3" where
  "matvec3 (r0, r1, r2) v = (dot3 r0 v, dot3 r1 v, dot3 r2 v)"

fun matvec4 :: "mat4 \<Rightarrow> vec4 \<Rightarrow> vec4" where
  "matvec4 (r0, r1, r2, r3) v = (dot4 r0 v, dot4 r1 v, dot4 r2 v, dot4 r3 v)"

fun matvec43 :: "mat43 \<Rightarrow> vec3 \<Rightarrow> vec4" where
  "matvec43 (r0, r1, r2, r3) v = (dot3 r0 v, dot3 r1 v, dot3 r2 v, dot3 r3 v)"

fun transpose34 :: "mat34 \<Rightarrow> mat43" where
  "transpose34 ((a0, a1, a2, a3), (b0, b1, b2, b3), (c0, c1, c2, c3)) =
     ((a0, b0, c0), (a1, b1, c1), (a2, b2, c2), (a3, b3, c3))"

text \<open>\<^verbatim>\<open>np.cross\<close> on two \<^verbatim>\<open>(3,)\<close> arrays.\<close>

fun cross :: "vec3 \<Rightarrow> vec3 \<Rightarrow> vec3" where
  "cross (a0, a1, a2) (b0, b1, b2) =
     (a1 * b2 - a2 * b1, a2 * b0 - a0 * b2, a0 * b1 - a1 * b0)"

text \<open>
  \<^verbatim>\<open>np.linalg.inv\<close> on a \<^verbatim>\<open>(3, 3)\<close> array: the inverse, or \<^verbatim>\<open>LinAlgError\<close>
  for a singular matrix. Over the reals the matrix is singular exactly when its
  determinant is zero, and the inverse is the adjugate divided by the determinant.
  In floating point the library raises only at an exactly zero pivot of its LU
  factorisation, so on matrices that are singular, or nearly so, up to rounding the two
  may differ; the determinant criterion is exact for the zero matrix, for matrices with a
  zero row and for diagonal matrices.
\<close>

fun det3 :: "mat3 \<Rightarrow> real" where
  "det3 ((a, b, c), (d, e, f), (h, i, j)) =
     a * (e * j - f * i) - b * (d * j - f * h) + c * (d * i - e * h)"

fun adjugate3 :: "mat3 \<Rightarrow> mat3" where
  "adjugate3 ((a, b, c), (d, e, f), (h, i, j)) =
     ((e * j - f * i, c * i - b * j, b * f - c * e),
      (f * h - d * j, a * j - c * h, c * d - a * f),
      (d * i - e * h, b * h - a * i, a * e - b * d))"

fun mscale3 :: "mat3 \<Rightarrow> real \<Rightarrow> mat3" where
  "mscale3 (r0, r1, r2) c = (vdiv3 r0 c, vdiv3 r1 c, vdiv3 r2 c)"

definition linalg_inv :: "mat3 \<Rightarrow> error + mat3" where
  "linalg_inv m = (if det3 m = 0 then Inl LinAlgError else Inr (mscale3 (adjugate3 m) (det3 m)))"

fun col3 :: "mat3 \<Rightarrow> mat3" where
  "col3 ((a, b, c), (d, e, f), (h, i, j)) = ((a, d, h), (b, e, i), (c, f, j))"

fun matmul3 :: "mat3 \<Rightarrow> mat3 \<Rightarrow> mat3" where
  "matmul3 (r0, r1, r2) n =
     (case col3 n of (c0, c1, c2) \<Rightarrow>
        ((dot3 r0 c0, dot3 r0 c1, dot3 r0 c2),
         (dot3 r1 c0, dot3 r1 c1, dot3 r1 c2),
         (dot3 r2 c0, dot3 r2 c1, dot3 r2 c2)))"

definition identity3 :: mat3 where
  "identity3 = ((1, 0, 0), (0, 1, 0), (0, 0, 1))"

section \<open>Rotations\<close>

text \<open>
  \<^verbatim>\<open>sym.Rot3\<close> holds a quaternion in xyzw storage order; \<^verbatim>\<open>to_storage\<close> and
  \<^verbatim>\<open>from_storage\<close> convert between the object and its four numbers.
\<close>

datatype Rot3 = Rot3 (to_storage: vec4)

definition from_storage :: "vec4 \<Rightarrow> Rot3" where
  "from_storage q = Rot3 q"

text \<open>
  Modelled from the spec: the product \<^verbatim>\<open>R * v\<close> of a \<^verbatim>\<open>Rot3\<close> with a 3-vector is
  defined in the rotation library, not in the notebook. The spec describes it as the
  active rotation of the vector by the quaternion, from the body frame to the world
  frame; it is modelled by the rotation matrix of a quaternion in xyzw order.
\<close>

fun rot3_mul :: "Rot3 \<Rightarrow> vec3 \<Rightarrow> vec3" where
  "rot3_mul (Rot3 (x, y, z, w)) v =
     matvec3 ((1 - 2 * y * y - 2 * z * z, 2 * x * y - 2 * z * w, 2 * x * z + 2 * y * w),
              (2 * x * y + 2 * z * w, 1 - 2 * x * x - 2 * z * z, 2 * y * z - 2 * x * w),
              (2 * x * z - 2 * y * w, 2 * y * z + 2 * x * w, 1 - 2 * x * x - 2 * y * y)) v"

definition dRot3 :: "Rot3 \<Rightarrow> vec3 \<Rightarrow> Rot3" where
  "dRot3 R omega =
     (let quat = to_storage R in
      (case quat of (q0, q1, q2, q3) \<Rightarrow>
         let G = (( q3,  q2, - q1, - q0),
                  (- q2,  q3,  q0, - q1),
                  ( q1, - q0,  q3, - q2));
             quat_dot = vdiv4 (matvec43 (transpose34 G) omega) 2
         in from_storage quat_dot))"

section \<open>Parameters\<close>

record Params =
  mass :: real
  inertia :: mat3
  rotor_diameter :: real
  static_thrust_coefficient :: real
  static_torque_coefficient :: real
  arm_length :: real
  g :: real
  rho :: real

text \<open>
  The dataclass constructor: every field is a keyword argument with a default
  (\<open>None\<close> stands for an omitted argument). The generated \<^verbatim>\<open>__init__\<close> only stores
  the fields; the class has no \<^verbatim>\<open>__post_init__\<close>, so no branch returns an error.
\<close>

definition Params_init ::
  "real option \<Rightarrow> mat3 option \<Rightarrow> real option \<Rightarrow> real option \<Rightarrow> real option \<Rightarrow>
   real option \<Rightarrow> real option \<Rightarrow> real option \<Rightarrow> error + Params" where
  "Params_init mass' inertia' rotor_diameter' static_thrust_coefficient'
       static_torque_coefficient' arm_length' g' rho' =
     Inr \<lparr> mass = (case mass' of None \<Rightarrow> 1.352 | Some v \<Rightarrow> v),
           inertia = (case inertia' of
                        None \<Rightarrow> ((9.8 / 10 ^ 3, 0, 0),
                                 (0, 10.02 / 10 ^ 3, 0),
                                 (0, 0, 18.6 / 10 ^ 3))
                      | Some v \<Rightarrow> v),
           rotor_diameter = (case rotor_diameter' of None \<Rightarrow> 10 * 0.0254 | Some v \<Rightarrow> v),
           static_thrust_coefficient =
             (case static_thrust_coefficient' of None \<Rightarrow> 0.14553 | Some v \<Rightarrow> v),
           static_torque_coefficient =
             (case static_torque_coefficient' of None \<Rightarrow> 0.01047 | Some v \<Rightarrow> v),
           arm_length = (case arm_length' of None \<Rightarrow> 0.3814 / 2.0 | Some v \<Rightarrow> v),
           g = (case g' of None \<Rightarrow> 9.80665 | Some v \<Rightarrow> v),
           rho = (case rho' of None \<Rightarrow> 1.225 | Some v \<Rightarrow> v) \<rparr>"

definition rotor_model :: "Params \<Rightarrow> real \<Rightarrow> real" where
  "rotor_model self static_coefficient =
     rho self * static_coefficient * (rotor_diameter self ^ 4) / (4 * pi ^ 2)"

definition k_thrust :: "Params \<Rightarrow> real" where
  "k_thrust self = rotor_model self (static_thrust_coefficient self)"

definition k_torque :: "Params \<Rightarrow> real" where
  "k_torque self = rotor_model self (static_torque_coefficient self)"

text \<open>The global \<^verbatim>\<open>p = Params()\<close>: all defaults.\<close>

definition p :: Params where
  "p = \<lparr> mass = 1.352,
         inertia = ((9.8 / 10 ^ 3, 0, 0), (0, 10.02 / 10 ^ 3, 0), (0, 0, 18.6 / 10 ^ 3)),
         rotor_diameter = 10 * 0.0254,
         static_thrust_coefficient = 0.14553,
         static_torque_coefficient = 0.01047,
         arm_length = 0.3814 / 2.0,
         g = 9.80665,
         rho = 1.225 \<rparr>"

section \<open>Dynamics\<close>

text \<open>
  \<^verbatim>\<open>QuadrotorState\<close> is imported from \<^verbatim>\<open>quadrotor.dynamics\<close>; its four fields are the
  keyword arguments with which the notebook constructs it.
\<close>

record QuadrotorState =
  position :: vec3
  orientation :: Rot3
  velocity :: vec3
  angular_velocity :: vec3

text \<open>
  The functions of the notebook read the global \<^verbatim>\<open>p\<close>; in the model the parameter
  object is the first argument \<open>ps\<close>, and the notebook's behaviour is the instance
  \<open>ps = p\<close>. In \<^verbatim>\<open>state_derivative\<close> the division by \<^verbatim>\<open>p.mass\<close> is a numpy division:
  for a zero mass it yields infinities or NaN and raises nothing, so it is no error branch;
  statements about the quotient for arbitrary parameters assume a nonzero mass. The local
  \<open>M\<close> is computed and never used, as in the source.
\<close>

definition rotor_thrust_model :: "Params \<Rightarrow> vec4 \<Rightarrow> vec4" where
  "rotor_thrust_model ps rotor_rates =
     (let thrusts = vscale4 (vmul4 rotor_rates rotor_rates) (k_thrust ps) in thrusts)"

definition state_derivative ::
  "Params \<Rightarrow> real \<Rightarrow> QuadrotorState \<Rightarrow> real \<Rightarrow> vec3 \<Rightarrow> error + QuadrotorState" where
  "state_derivative ps t state u1 u2 =
     (let R = orientation state;
          w = angular_velocity state;
          I = inertia ps;
          accel = vdiv3 (vadd3 (0, 0, - g ps) (rot3_mul R (0, 0, u1))) (mass ps);
          M = rot3_mul R u2
      in (case linalg_inv I of
            Inl e \<Rightarrow> Inl e
          | Inr I_inv \<Rightarrow>
              let angular_accel = matvec3 I_inv (vsub3 u2 (cross w (matvec3 I w)))
              in Inr \<lparr> position = velocity state,
                       orientation = dRot3 (orientation state) (angular_velocity state),
                       velocity = accel,
                       angular_velocity = angular_accel \<rparr>))"

text \<open>
  The first part of \<^verbatim>\<open>FullQuadrotorDynamics.step\<close>: the local \<^verbatim>\<open>mixing_matrix\<close>
  and the inputs \<open>u1 = u[0]\<close>, \<open>u2 = u[1:4]\<close> computed from the rotor rates.
  \<open>k_torque\<close> and \<open>k_thrust\<close> are Python floats, so the quotient \<open>m_t\<close> raises
  \<^verbatim>\<open>ZeroDivisionError\<close> when \<open>k_thrust\<close> is zero.
\<close>

definition mixing_matrix :: "Params \<Rightarrow> mat4" where
  "mixing_matrix ps =
     (let L = arm_length ps;
          m_t = k_torque ps / k_thrust ps
      in ((  1,      1,      1,        1),
          (  0,      L,      0,      - L),
          (- L,      0,      L,        0),
          (m_t,  - m_t,    m_t,    - m_t)))"

definition step_inputs :: "Params \<Rightarrow> vec4 \<Rightarrow> error + (real \<times> vec3)" where
  "step_inputs ps rates =
     (case rotor_thrust_model ps rates of (F1, F2, F3, F4) \<Rightarrow>
        if k_thrust ps = 0 then Inl ZeroDivisionError
        else (case matvec4 (mixing_matrix ps) (F1, F2, F3, F4) of (u_0, u_1, u_2, u_3) \<Rightarrow>
                let u1 = u_0; u2 = (u_1, u_2, u_3) in Inr (u1, u2)))"

text \<open>
  The notebook's \<^verbatim>\<open>initial_state\<close>: at the origin, at rest, with the orientation
  \<^verbatim>\<open>Rot3.from_yaw_pitch_roll(0, 0, 0)\<close>, which the recorded output of the notebook
  prints as \<^verbatim>\<open><Rot3 [0.0, 0.0, 0.0, 1.0]>\<close>.
\<close>

definition initial_state :: QuadrotorState where
  "initial_state = \<lparr> position = (0, 0, 0), orientation = from_storage (0, 0, 0, 1),
                     velocity = (0, 0, 0), angular_velocity = (0, 0, 0) \<rparr>"

section \<open>The integration step\<close>


text \<open>
  Modelled from the spec: \<^verbatim>\<open>QuadrotorState.to_state_vector\<close> belongs to the package
  \<^verbatim>\<open>quadrotor.dynamics\<close>, which the notebook imports and does not define. The spec fixes
  the packing order as position, velocity, orientation, angular velocity; the recorded
  output of the notebook shows the same order.
\<close>

definition to_state_vector :: "QuadrotorState \<Rightarrow> real list" where
  "to_state_vector s =
     (case position s of (p0, p1, p2) \<Rightarrow>
     (case velocity s of (v0, v1, v2) \<Rightarrow>
     (case to_storage (orientation s) of (q0, q1, q2, q3) \<Rightarrow>
     (case angular_velocity s of (w0, w1, w2) \<Rightarrow>
        [p0, p1, p2, v0, v1, v2, q0, q1, q2, q3, w0, w1, w2]))))"

text \<open>
  Modelled from the spec: \<^verbatim>\<open>QuadrotorState.from_state_vector\<close> belongs to the same
  package. The spec says that packing and unpacking are a pure, invertible,
  order-preserving bijection between states and flat vectors of length 13, and that a
  vector of the wrong length is a fatal error. Unpacking therefore only splits the vector
  into the four fields and changes no number.
\<close>

fun from_state_vector :: "real list \<Rightarrow> error + QuadrotorState" where
  "from_state_vector [p0, p1, p2, v0, v1, v2, q0, q1, q2, q3, w0, w1, w2] =
     Inr \<lparr> position = (p0, p1, p2),
            orientation = from_storage (q0, q1, q2, q3),
            velocity = (v0, v1, v2),
            angular_velocity = (w0, w1, w2) \<rparr>"
| "from_state_vector _ = Inl ValueError"

record QuadrotorCommands =
  rotor_rates :: vec4

text \<open>
  The fields of the dynamics object that \<^verbatim>\<open>step\<close> reads and writes: the current state
  and the length \<open>dt\<close> of a macro-step.
\<close>

record FullQuadrotorDynamics =
  state :: QuadrotorState
  dt :: real

text \<open>
  \<^verbatim>\<open>scipy.integrate.solve_ivp\<close> is a library routine; the model takes it as a parameter
  of \<^verbatim>\<open>step\<close>. A solver receives the derivative function, the time span and the
  initial vector, and returns the columns of \<^verbatim>\<open>solution['y']\<close> in time order, or the
  exception raised by the derivative function.
\<close>

type_synonym ode_solver =
  "(real \<Rightarrow> real list \<Rightarrow> error + real list) \<Rightarrow> real \<times> real \<Rightarrow> real list \<Rightarrow> error + real list list"

definition state_derivative_wrapped ::
  "Params \<Rightarrow> real \<Rightarrow> vec3 \<Rightarrow> real \<Rightarrow> real list \<Rightarrow> error + real list" where
  "state_derivative_wrapped ps u1 u2 t sv =
     (case from_state_vector sv of
        Inl e \<Rightarrow> Inl e
      | Inr s \<Rightarrow>
          (case state_derivative ps t s u1 u2 of
             Inl e \<Rightarrow> Inl e
           | Inr d \<Rightarrow> Inr (to_state_vector d)))"

text \<open>
  \<^verbatim>\<open>FullQuadrotorDynamics.step\<close>. The assignment to \<^verbatim>\<open>self.state\<close> is the updated
  object in the result; the calls of \<^verbatim>\<open>print\<close> write to standard output only and are
  left out. \<^verbatim>\<open>solution['y'][:, -1]\<close> is the last column. Between the call of the solver
  and the return the source only unpacks that column.
\<close>

definition step ::
  "Params \<Rightarrow> ode_solver \<Rightarrow> FullQuadrotorDynamics \<Rightarrow> real \<Rightarrow> QuadrotorCommands \<Rightarrow>
   error + (QuadrotorState \<times> FullQuadrotorDynamics)" where
  "step ps solve_ivp self t input =
     (case step_inputs ps (rotor_rates input) of
        Inl e \<Rightarrow> Inl e
      | Inr (u1, u2) \<Rightarrow>
          let state_vector = to_state_vector (state self)
          in (case solve_ivp (state_derivative_wrapped ps u1 u2) (0, dt self) state_vector of
                Inl e \<Rightarrow> Inl e
              | Inr y \<Rightarrow>
                  if y = [] then Inl IndexError
                  else (case from_state_vector (last y) of
                          Inl e \<Rightarrow> Inl e
                        | Inr s' \<Rightarrow> Inr (s', self\<lparr>state := s'\<rparr>))))"


section \<open>Auxiliary facts\<close>

subsection \<open>The matrix inverse\<close>

lemma matmul3_adjugate_left:
  "matmul3 (adjugate3 m) m = ((det3 m, 0, 0), (0, det3 m, 0), (0, 0, det3 m))"
proof -
  obtain a b c d e f h i j where m: "m = ((a, b, c), (d, e, f), (h, i, j))"
    by (metis prod_cases3)
  show ?thesis unfolding m by (simp add: algebra_simps)
qed

lemma matmul3_adjugate_right:
  "matmul3 m (adjugate3 m) = ((det3 m, 0, 0), (0, det3 m, 0), (0, 0, det3 m))"
proof -
  obtain a b c d e f h i j where m: "m = ((a, b, c), (d, e, f), (h, i, j))"
    by (metis prod_cases3)
  show ?thesis unfolding m by (simp add: algebra_simps)
qed

lemma matmul3_mscale3_left: "matmul3 (mscale3 a c) m = mscale3 (matmul3 a m) c"
proof -
  obtain a0 a1 a2 a3 a4 a5 a6 a7 a8 where a: "a = ((a0, a1, a2), (a3, a4, a5), (a6, a7, a8))"
    by (metis prod_cases3)
  obtain m0 m1 m2 m3 m4 m5 m6 m7 m8 where m: "m = ((m0, m1, m2), (m3, m4, m5), (m6, m7, m8))"
    by (metis prod_cases3)
  show ?thesis unfolding a m by (simp add: add_divide_distrib)
qed

lemma matmul3_mscale3_right: "matmul3 m (mscale3 a c) = mscale3 (matmul3 m a) c"
proof -
  obtain a0 a1 a2 a3 a4 a5 a6 a7 a8 where a: "a = ((a0, a1, a2), (a3, a4, a5), (a6, a7, a8))"
    by (metis prod_cases3)
  obtain m0 m1 m2 m3 m4 m5 m6 m7 m8 where m: "m = ((m0, m1, m2), (m3, m4, m5), (m6, m7, m8))"
    by (metis prod_cases3)
  show ?thesis unfolding a m by (simp add: add_divide_distrib)
qed

text \<open>Whatever \<open>linalg_inv\<close> returns is a two-sided inverse.\<close>

lemma linalg_inv_inverse:
  assumes "linalg_inv m = Inr n"
  shows "matmul3 n m = identity3 \<and> matmul3 m n = identity3"
proof -
  from assms have nz: "det3 m \<noteq> 0" and n: "n = mscale3 (adjugate3 m) (det3 m)"
    by (auto simp: linalg_inv_def split: if_splits)
  have "matmul3 n m = mscale3 ((det3 m, 0, 0), (0, det3 m, 0), (0, 0, det3 m)) (det3 m)"
    unfolding n by (simp only: matmul3_mscale3_left matmul3_adjugate_left)
  moreover have "matmul3 m n = mscale3 ((det3 m, 0, 0), (0, det3 m, 0), (0, 0, det3 m)) (det3 m)"
    unfolding n by (simp only: matmul3_mscale3_right matmul3_adjugate_right)
  ultimately show ?thesis using nz by (simp add: identity3_def)
qed

subsection \<open>What \<open>state_derivative\<close> returns\<close>

lemma state_derivative_Inr:
  assumes "linalg_inv (inertia ps) = Inr I_inv"
  shows "state_derivative ps t s u1 u2 =
           Inr \<lparr> position = velocity s,
                  orientation = dRot3 (orientation s) (angular_velocity s),
                  velocity = vdiv3 (vadd3 (0, 0, - g ps) (rot3_mul (orientation s) (0, 0, u1))) (mass ps),
                  angular_velocity =
                    matvec3 I_inv (vsub3 u2 (cross (angular_velocity s)
                                                   (matvec3 (inertia ps) (angular_velocity s)))) \<rparr>"
  using assms by (simp add: state_derivative_def Let_def)

lemma state_derivative_Inl:
  "state_derivative ps t s u1 u2 = Inl e \<longleftrightarrow> (det3 (inertia ps) = 0 \<and> e = LinAlgError)"
  by (auto simp: state_derivative_def Let_def linalg_inv_def)

subsection \<open>The default parameters\<close>

lemma linalg_inv_p:
  "linalg_inv (inertia p) = Inr ((1000 / 9.8, 0, 0), (0, 1000 / 10.02, 0), (0, 0, 1000 / 18.6))"
  by (simp add: p_def linalg_inv_def)

lemma Params_init_default: "Params_init None None None None None None None None = Inr p"
  by (simp add: Params_init_def p_def)


lemma k_thrust_p_pos: "0 < k_thrust p"
  by (simp add: k_thrust_def rotor_model_def p_def)



lemma step_inputs_zero: "step_inputs p (0, 0, 0, 0) = Inr (0, (0, 0, 0))"
  using k_thrust_p_pos
  by (simp add: step_inputs_def rotor_thrust_model_def mixing_matrix_def Let_def)



subsection \<open>Packing and unpacking\<close>

lemma from_state_vector_to_state_vector: "from_state_vector (to_state_vector s) = Inr s"
proof -
  obtain p0 p1 p2 where a: "position s = (p0, p1, p2)" by (metis prod_cases3)
  obtain v0 v1 v2 where b: "velocity s = (v0, v1, v2)" by (metis prod_cases3)
  obtain q0 q1 q2 q3 where c: "orientation s = Rot3 (q0, q1, q2, q3)"
    by (metis Rot3.exhaust prod_cases4)
  obtain w0 w1 w2 where d: "angular_velocity s = (w0, w1, w2)" by (metis prod_cases3)
  have "s = \<lparr> position = (p0, p1, p2), orientation = Rot3 (q0, q1, q2, q3),
               velocity = (v0, v1, v2), angular_velocity = (w0, w1, w2) \<rparr>"
    using a b c d by (cases s) simp
  then show ?thesis by (simp add: to_state_vector_def from_storage_def)
qed


text \<open>\<^verbatim>\<open>step\<close> returns a state whenever the solver returns a last column of length 13.\<close>

lemma step_returns:
  assumes "step_inputs ps (rotor_rates input) = Inr (u1, u2)"
    and "solve_ivp (state_derivative_wrapped ps u1 u2) (0, dt self) (to_state_vector (state self)) = Inr y"
    and "y \<noteq> []"
    and "last y = [p0, p1, p2, v0, v1, v2, q0, q1, q2, q3, w0, w1, w2]"
  shows "\<exists>s'. step ps solve_ivp self t input = Inr (s', self\<lparr>state := s'\<rparr>)"
  using assms by (simp add: step_def Let_def)




section \<open>Properties\<close>

text \<open>
  C6: for every 4-vector of rotor rates, negative entries included,
  \<^verbatim>\<open>rotor_thrust_model\<close> returns the vector whose i-th component is the i-th rate
  squared times \<open>k_thrust\<close>, hence it returns the same forces for \<open>r\<close> and \<open>- r\<close>.
\<close>

theorem rotor_thrust_model_squares:
  "rotor_thrust_model ps (r1, r2, r3, r4) =
     (r1\<^sup>2 * k_thrust ps, r2\<^sup>2 * k_thrust ps, r3\<^sup>2 * k_thrust ps, r4\<^sup>2 * k_thrust ps)
   \<and> rotor_thrust_model ps (vneg4 (r1, r2, r3, r4)) = rotor_thrust_model ps (r1, r2, r3, r4)"
  by (simp add: rotor_thrust_model_def power2_eq_square)

text \<open>
  C10: \<^verbatim>\<open>state_derivative\<close> is time-invariant: at a fixed state and fixed inputs
  \<open>u1\<close>, \<open>u2\<close> it returns the same result for any two values of the time argument.
\<close>

theorem state_derivative_time_invariant:
  "state_derivative ps t1 s u1 u2 = state_derivative ps t2 s u1 u2"
  by (simp add: state_derivative_def)

text \<open>
  C7: for every quaternion \<open>(q0, q1, q2, q3)\<close> in xyzw storage order and every body-frame
  angular velocity \<open>omega\<close>, \<^verbatim>\<open>dRot3\<close> returns half of the transpose of \<open>G\<close> applied
  to \<open>omega\<close>, where \<open>G\<close> is the 3 by 4 matrix built from the components of that same
  quaternion; componentwise this is the second equation.
\<close>

theorem dRot3_half_G_transpose:
  "dRot3 (from_storage (q0, q1, q2, q3)) (w0, w1, w2) =
     from_storage (vdiv4 (matvec43 (transpose34 ((q3, q2, - q1, - q0),
                                                (- q2, q3, q0, - q1),
                                                (q1, - q0, q3, - q2))) (w0, w1, w2)) 2)
   \<and> to_storage (dRot3 (from_storage (q0, q1, q2, q3)) (w0, w1, w2)) =
     ((q3 * w0 - q2 * w1 + q1 * w2) / 2,
      (q2 * w0 + q3 * w1 - q0 * w2) / 2,
      (- q1 * w0 + q0 * w1 + q3 * w2) / 2,
      (- q0 * w0 - q1 * w1 - q2 * w2) / 2)"
  by (simp add: dRot3_def from_storage_def)

text \<open>
  C5: for every 4-vector of rotor forces the mixing matrix yields the sum of the four
  forces in row 0, the arm length times a difference of two forces in rows 1 and 2 (the
  entries of these rows are \<open>0\<close>, \<open>L\<close> and \<open>- L\<close>), and \<open>m_t = k_torque / k_thrust\<close>
  with alternating signs in row 3; \<^verbatim>\<open>step\<close> takes \<open>u1\<close> and \<open>u2\<close> from this product
  at the forces of \<^verbatim>\<open>rotor_thrust_model\<close>, provided \<open>k_thrust\<close> is nonzero.
\<close>

theorem mixing_matrix_rows:
  "matvec4 (mixing_matrix ps) (F1, F2, F3, F4) =
     (F1 + F2 + F3 + F4,
      arm_length ps * (F2 - F4),
      arm_length ps * (F3 - F1),
      (k_torque ps / k_thrust ps) * (F1 - F2 + F3 - F4))
   \<and> mixing_matrix ps =
     ((1, 1, 1, 1),
      (0, arm_length ps, 0, - arm_length ps),
      (- arm_length ps, 0, arm_length ps, 0),
      (k_torque ps / k_thrust ps, - (k_torque ps / k_thrust ps),
       k_torque ps / k_thrust ps, - (k_torque ps / k_thrust ps)))
   \<and> (k_thrust ps \<noteq> 0 \<longrightarrow>
        step_inputs ps rates =
          (case rotor_thrust_model ps rates of (T1, T2, T3, T4) \<Rightarrow>
             Inr (T1 + T2 + T3 + T4,
                  (arm_length ps * (T2 - T4), arm_length ps * (T3 - T1),
                   (k_torque ps / k_thrust ps) * (T1 - T2 + T3 - T4)))))"
  by (simp add: mixing_matrix_def step_inputs_def Let_def algebra_simps
      diff_divide_distrib add_divide_distrib split: prod.splits)

theorem mixing_matrix_rows_witness:
  "k_thrust p \<noteq> 0
   \<and> matvec4 (mixing_matrix p) (1, 2, 3, 5) =
       (1 + 2 + 3 + 5, arm_length p * (2 - 5), arm_length p * (3 - 1),
        (k_torque p / k_thrust p) * (1 - 2 + 3 - 5))
   \<and> step_inputs p (380, 340, 380, 340) =
       (case rotor_thrust_model p (380, 340, 380, 340) of (T1, T2, T3, T4) \<Rightarrow>
          Inr (T1 + T2 + T3 + T4,
               (arm_length p * (T2 - T4), arm_length p * (T3 - T1),
                (k_torque p / k_thrust p) * (T1 - T2 + T3 - T4))))"
proof -
  have h: "k_thrust p \<noteq> 0" using k_thrust_p_pos by simp
  show ?thesis
    using h mixing_matrix_rows[of p 1 2 3 5 "(380, 340, 380, 340)"] by blast
qed

text \<open>
  C2: for every state and every torque input \<open>u2\<close>, when the inertia tensor is
  invertible \<^verbatim>\<open>state_derivative\<close> returns a derivative whose angular-velocity field
  is the inverse of the inertia tensor applied to \<open>u2\<close> minus the cross product of the
  angular velocity with the inertia tensor times the angular velocity. The torque is not
  rotated: the field is the same for every orientation \<open>R\<close> of the state.
\<close>

theorem angular_acceleration_euler_equation:
  assumes "det3 (inertia ps) \<noteq> 0"
  shows "\<exists>d I_inv.
           state_derivative ps t s u1 u2 = Inr d
         \<and> matmul3 I_inv (inertia ps) = identity3
         \<and> matmul3 (inertia ps) I_inv = identity3
         \<and> angular_velocity d =
             matvec3 I_inv (vsub3 u2 (cross (angular_velocity s)
                                            (matvec3 (inertia ps) (angular_velocity s))))
         \<and> map_sum id angular_velocity (state_derivative ps t (s\<lparr>orientation := R\<rparr>) u1 u2)
             = Inr (angular_velocity d)"
proof -
  from assms obtain I_inv where inv: "linalg_inv (inertia ps) = Inr I_inv"
    by (simp add: linalg_inv_def)
  define w where "w = angular_velocity s"
  define d where
    "d = \<lparr> position = velocity s,
            orientation = dRot3 (orientation s) w,
            velocity = vdiv3 (vadd3 (0, 0, - g ps) (rot3_mul (orientation s) (0, 0, u1))) (mass ps),
            angular_velocity = matvec3 I_inv (vsub3 u2 (cross w (matvec3 (inertia ps) w))) \<rparr>"
  have ret: "state_derivative ps t s u1 u2 = Inr d"
    unfolding d_def w_def by (rule state_derivative_Inr[OF inv])
  from linalg_inv_inverse[OF inv]
  have left: "matmul3 I_inv (inertia ps) = identity3"
    and right: "matmul3 (inertia ps) I_inv = identity3"
    by simp_all
  have acc: "angular_velocity d = matvec3 I_inv (vsub3 u2 (cross w (matvec3 (inertia ps) w)))"
    by (simp add: d_def)
  have rot: "map_sum id angular_velocity (state_derivative ps t (s\<lparr>orientation := R\<rparr>) u1 u2)
               = Inr (angular_velocity d)"
    by (simp add: state_derivative_Inr[OF inv] d_def w_def)
  show ?thesis
    using ret left right acc rot unfolding w_def by blast
qed

theorem angular_acceleration_euler_equation_witness:
  "det3 (inertia p) \<noteq> 0
   \<and> (\<exists>d I_inv.
         state_derivative p 0 (initial_state\<lparr>angular_velocity := (1, 2, 3)\<rparr>) 5 (1, 0, 0) = Inr d
       \<and> matmul3 I_inv (inertia p) = identity3
       \<and> matmul3 (inertia p) I_inv = identity3
       \<and> angular_velocity d =
           matvec3 I_inv (vsub3 (1, 0, 0) (cross (1, 2, 3) (matvec3 (inertia p) (1, 2, 3))))
       \<and> map_sum id angular_velocity
            (state_derivative p 0
               (initial_state\<lparr>angular_velocity := (1, 2, 3), orientation := from_storage (0, 0, 1, 0)\<rparr>)
               5 (1, 0, 0))
           = Inr (angular_velocity d))"
proof -
  have h: "det3 (inertia p) \<noteq> 0" by (simp add: p_def)
  show ?thesis
    using h angular_acceleration_euler_equation[OF h, of 0
        "initial_state\<lparr>angular_velocity := (1, 2, 3)\<rparr>" 5 "(1, 0, 0)" "from_storage (0, 0, 1, 0)"]
    by simp
qed

text \<open>
  C1: the velocity derivative is specified as the gravity vector \<open>(0, 0, - g)\<close> plus the
  rotated thrust vector divided by the mass, with only the thrust term divided. The
  source's comment says the same, but the expression divides the sum of both terms by the
  mass. At the initial state, with thrust \<open>u1 = 13.52\<close> and the default parameters, the
  returned vertical acceleration is \<open>(13.52 - 9.80665) / 1.352\<close>, whereas the specified
  formula gives \<open>10 - 9.80665\<close>.
\<close>

theorem gravity_divided_by_mass:
  "map_sum id velocity (state_derivative p 0 initial_state 13.52 (0, 0, 0))
     = Inr (0, 0, (13.52 - 9.80665) / 1.352)
   \<and> vadd3 (0, 0, - g p) (vdiv3 (rot3_mul (orientation initial_state) (0, 0, 13.52)) (mass p))
     = (0, 0, 10 - 9.80665)
   \<and> (0, 0, (13.52 - 9.80665) / 1.352) \<noteq> ((0, 0, 10 - 9.80665) :: vec3)"
  apply (simp add: state_derivative_def Let_def linalg_inv_p initial_state_def from_storage_def)
  apply (simp add: p_def)
  done

text \<open>
  C4: at rest with all four rotor rates zero the inputs are \<open>u1 = 0\<close> and
  \<open>u2 = (0, 0, 0)\<close>, and the angular-velocity derivative is zero; the velocity derivative
  should be \<open>(0, 0, - g)\<close>, but \<^verbatim>\<open>state_derivative\<close> returns \<open>(0, 0, - g / mass)\<close>,
  which for the default parameters is a different vector.
\<close>

theorem zero_input_rest_derivative:
  "step_inputs p (0, 0, 0, 0) = Inr (0, (0, 0, 0))
   \<and> map_sum id velocity (state_derivative p 0 initial_state 0 (0, 0, 0))
     = Inr (0, 0, - (9.80665 / 1.352))
   \<and> map_sum id angular_velocity (state_derivative p 0 initial_state 0 (0, 0, 0))
     = Inr (0, 0, 0)
   \<and> (0, 0, - (9.80665 / 1.352)) \<noteq> (0, 0, - g p)"
  apply (simp add: step_inputs_zero state_derivative_def Let_def linalg_inv_p initial_state_def
      from_storage_def)
  apply (simp add: p_def)
  done

text \<open>
  C9, as the code has it: the constructor of \<^verbatim>\<open>Params\<close> checks nothing: it never
  returns an error and stores the inertia tensor it is given, singular or not. The tensor
  is inverted inside \<^verbatim>\<open>state_derivative\<close>, at every evaluation, and \<^verbatim>\<open>state_derivative\<close>
  fails exactly when that inversion fails, with the error of the inversion, whatever the
  time, the state and the inputs are.
\<close>

theorem inversion_failure_is_per_evaluation:
  "(\<exists>ps'. Params_init m (Some J) d ct cq l gg r = Inr ps' \<and> inertia ps' = J)
   \<and> (state_derivative ps t s u1 u2 = Inl e \<longleftrightarrow> linalg_inv (inertia ps) = Inl e)"
  by (auto simp: Params_init_def state_derivative_def Let_def split: sum.splits)

theorem inversion_failure_is_per_evaluation_witness:
  "(\<exists>ps'. Params_init None (Some ((1, 0, 0), (0, 0, 0), (0, 0, 1))) None None None None None None
            = Inr ps'
          \<and> inertia ps' = ((1, 0, 0), (0, 0, 0), (0, 0, 1)))
   \<and> linalg_inv (inertia (p\<lparr>inertia := ((1, 0, 0), (0, 0, 0), (0, 0, 1))\<rparr>)) = Inl LinAlgError
   \<and> state_derivative (p\<lparr>inertia := ((1, 0, 0), (0, 0, 0), (0, 0, 1))\<rparr>)
        3 (initial_state\<lparr>angular_velocity := (1, 2, 3)\<rparr>) 5 (1, 0, 0)
       = Inl LinAlgError"
proof -
  have h: "linalg_inv (inertia (p\<lparr>inertia := ((1, 0, 0), (0, 0, 0), (0, 0, 1))\<rparr>)) = Inl LinAlgError"
    by (simp add: linalg_inv_def)
  show ?thesis
    using h
      inversion_failure_is_per_evaluation[of None "((1, 0, 0), (0, 0, 0), (0, 0, 1))"
        None None None None None None
        "p\<lparr>inertia := ((1, 0, 0), (0, 0, 0), (0, 0, 1))\<rparr>" 3
        "initial_state\<lparr>angular_velocity := (1, 2, 3)\<rparr>" 5 "(1, 0, 0)" LinAlgError]
    by blast
qed

text \<open>
  The zero matrix as inertia tensor: construction succeeds, and the first failure is the
  inversion inside \<^verbatim>\<open>state_derivative\<close>.
\<close>

theorem params_accepts_singular_inertia:
  "Params_init None (Some ((0, 0, 0), (0, 0, 0), (0, 0, 0))) None None None None None None
     = Inr (p\<lparr>inertia := ((0, 0, 0), (0, 0, 0), (0, 0, 0))\<rparr>)
   \<and> state_derivative (p\<lparr>inertia := ((0, 0, 0), (0, 0, 0), (0, 0, 0))\<rparr>) 0 initial_state 0 (0, 0, 0)
     = Inl LinAlgError"
  by (simp add: Params_init_def p_def state_derivative_def Let_def linalg_inv_def)







end
